theory Spec2Isabelle
  imports Main "HOL-Library.AList" "HOL-Library.Sublist"
begin

section \<open>Schema-driven block extraction (schema extractor of aem-mhast)\<close>

subsection \<open>Trees, errors, diagnostics\<close>

text \<open>
  A JavaScript value read from a properties object: a string, or any other value. The
  engine only tests such a value for truthiness and hands it on unchanged (the cast
  \<^verbatim>\<open>as string\<close> converts nothing), so a value that is not a string is an opaque
  token with its truthiness: \<open>Truthy\<close> for \<^verbatim>\<open>true\<close>, a non-zero number, a list, an
  object or a function; \<open>Falsy\<close> for \<^verbatim>\<open>false\<close>, \<^verbatim>\<open>0\<close>, \<^verbatim>\<open>NaN\<close>,
  \<^verbatim>\<open>null\<close> and \<^verbatim>\<open>undefined\<close>.
\<close>

datatype other = Truthy nat | Falsy nat

datatype raw = RString string | ROther other

text \<open>
  A hast element: tag name, the own entries of its \<^verbatim>\<open>properties\<close> object (attribute
  name to value, in the order of the object's own keys; \<open>None\<close> when the element has no
  \<^verbatim>\<open>properties\<close> object) and children.
\<close>

datatype element =
  Element (tagName: string) (properties_el: "(string \<times> raw) list option")
    (children: "child list")
and child = ChildElement element | ChildText string

text \<open>A thrown JavaScript error, and one call of \<^verbatim>\<open>console.warn\<close>: the message
  and, where the source passes it as a second argument, the caught error.\<close>

datatype error = Error string

datatype log_entry = Warn string "error option"

text \<open>An effectful computation: the warnings it emitted, in order, and either the error it
  threw (\<open>Inl\<close>) or the value it returned (\<open>Inr\<close>). Warnings emitted before a throw are
  kept.\<close>

type_synonym 'a io = "log_entry list \<times> (error + 'a)"

text \<open>
  What the extractor uses and does not define. From its imports: \<^verbatim>\<open>select\<close> and
  \<^verbatim>\<open>selectAll\<close> of hast-util-select (first match or \<^verbatim>\<open>null\<close>; all matches in
  document order; both throw on a selector they cannot parse or evaluate) and
  \<^verbatim>\<open>getText\<close> of \<^verbatim>\<open>./utils\<close>. From the JavaScript runtime:
  \<^verbatim>\<open>String.prototype.trim\<close>, and \<open>inherited\<close>, what the read of a name that is not an
  own key of a properties object finds on the prototype chain of that object (on a plain
  object the members of \<^verbatim>\<open>Object.prototype\<close>, such as \<^verbatim>\<open>constructor\<close> and
  \<^verbatim>\<open>toString\<close>). They are parameters of every function below.
\<close>

record tree_query =
  select :: "string \<Rightarrow> element \<Rightarrow> error + element option"
  selectAll :: "string \<Rightarrow> element \<Rightarrow> error + element list"
  getText :: "element \<Rightarrow> string"
  trim :: "string \<Rightarrow> string"
  inherited :: "string \<Rightarrow> raw option"

subsection \<open>Schemas and extracted values\<close>

text \<open>
  \<^verbatim>\<open>SCHEMA_CONSTANTS\<close>. The selector and attribute keys name the fields
  \<open>selector\<close> and \<open>attribute\<close> of a schema property below.
\<close>

definition TEXT :: string where "TEXT = ''text''"
definition ARRAY :: string where "ARRAY = ''array''"
definition OBJECT :: string where "OBJECT = ''object''"
definition STRING :: string where "STRING = ''string''"

text \<open>
  \<^verbatim>\<open>SchemaProperty\<close>. The source dispatches on the \<^verbatim>\<open>type\<close> string at
  run time and casts, so one constructor carries the fields of all three interfaces; an
  optional field that is missing is \<open>None\<close>. \<open>properties\<close> lists the entries in the
  order of \<^verbatim>\<open>Object.entries\<close>.
\<close>

datatype SchemaProperty =
  SchemaProperty
    (ptype: string)
    (description: "string option")
    (selector: "string option")
    (attribute: "string option")
    (format: "string option")
    (properties: "(string \<times> SchemaProperty) list option")
    (required: "string list option")
    (items: "SchemaProperty option")

record BlockSchema =
  schema_uri :: "string option"
  title :: "string option"
  description_bs :: "string option"
  type_bs :: string
  properties_bs :: "(string \<times> SchemaProperty) list option"
  required_bs :: "string list option"

text \<open>An extracted value: a string, a value read from an element that is not a string, a
  sequence, or a mapping whose keys are in the order of \<^verbatim>\<open>Object.keys\<close>. Omission
  (\<^verbatim>\<open>null\<close>) is \<open>None\<close> of an option.\<close>

datatype jvalue =
  JString string | JOther other | JArray "jvalue list" | JObject "(string \<times> jvalue) list"

fun of_raw :: "raw \<Rightarrow> jvalue" where
  "of_raw (RString s) = JString s"
| "of_raw (ROther x) = JOther x"

text \<open>
  JavaScript truthiness of an optional string: \<^verbatim>\<open>undefined\<close> and the empty
  string are falsy. \<open>present x\<close> is the string a test \<^verbatim>\<open>if (x)\<close> lets
  through. Then \<^verbatim>\<open>a || b\<close> on strings, the truthiness of a value read from an
  element, \<^verbatim>\<open>value || null\<close>, and \<^verbatim>\<open>Boolean\<close> on an extraction result.
\<close>

fun present :: "string option \<Rightarrow> string option" where
  "present None = None"
| "present (Some s) = (if s = [] then None else Some s)"

definition js_or :: "string option \<Rightarrow> string \<Rightarrow> string" where
  "js_or a b = (case present a of Some s \<Rightarrow> s | None \<Rightarrow> b)"

fun truthy_raw :: "raw \<Rightarrow> bool" where
  "truthy_raw (RString s) = (s \<noteq> [])"
| "truthy_raw (ROther (Truthy n)) = True"
| "truthy_raw (ROther (Falsy n)) = False"

definition or_null :: "raw \<Rightarrow> raw option" where
  "or_null v = (if truthy_raw v then Some v else None)"

fun Boolean :: "jvalue option \<Rightarrow> bool" where
  "Boolean None = False"
| "Boolean (Some (JString s)) = (s \<noteq> [])"
| "Boolean (Some (JOther (Truthy n))) = True"
| "Boolean (Some (JOther (Falsy n))) = False"
| "Boolean (Some (JArray xs)) = True"
| "Boolean (Some (JObject kvs)) = True"

text \<open>
  \<^verbatim>\<open>obj[key] = value\<close> on the plain object the engine builds: the value of an own key
  is replaced in place, a new key goes last. The key \<^verbatim>\<open>__proto__\<close> is the accessor
  of \<^verbatim>\<open>Object.prototype\<close>: the assignment goes to its setter, which sets or ignores
  the prototype, and the object gets no own key. The prototype itself is not kept here:
  the properties below that speak of the keys of a mapping are stated for fields not named
  \<^verbatim>\<open>__proto__\<close>.
\<close>

definition assign :: "string \<Rightarrow> jvalue \<Rightarrow> (string \<times> jvalue) list \<Rightarrow> (string \<times> jvalue) list" where
  "assign key v obj = (if key = ''__proto__'' then obj else AList.update key v obj)"

text \<open>\<^verbatim>\<open>Object.keys(o).length > 0 ? o : null\<close>.\<close>

definition nonempty_or_null :: "(string \<times> jvalue) list \<Rightarrow> (string \<times> jvalue) list option" where
  "nonempty_or_null obj = (if length (map fst obj) > 0 then Some obj else None)"

subsection \<open>The extraction engine\<close>

text \<open>The read \<^verbatim>\<open>element.properties?.[name]\<close>: \<^verbatim>\<open>undefined\<close> when the element has
  no properties object; else the value of the own key, else what the prototype chain
  has under the name.\<close>

definition read_property :: "tree_query \<Rightarrow> element \<Rightarrow> string \<Rightarrow> raw option" where
  "read_property q element name =
     (case properties_el element of
        None \<Rightarrow> None
      | Some props \<Rightarrow>
          (case map_of props name of
             Some v \<Rightarrow> Some v
           | None \<Rightarrow> inherited q name))"

text \<open>The declared result type is \<^verbatim>\<open>string\<close>; the value of the attribute is returned
  as it is.\<close>

definition extractValueFromElement :: "tree_query \<Rightarrow> element \<Rightarrow> string \<Rightarrow> raw" where
  "extractValueFromElement q element attributeName =
     (if attributeName = TEXT then RString (trim q (getText q element))
      else
        (case Option.bind (read_property q element attributeName) or_null of
           Some v \<Rightarrow> v
         | None \<Rightarrow> RString (trim q (getText q element))))"

definition findElement ::
  "tree_query \<Rightarrow> element \<Rightarrow> string option \<Rightarrow> element option \<Rightarrow> error + element option" where
  "findElement q contextNode sel sharedElement =
     (case present sel of
        Some s \<Rightarrow> select q s contextNode
      | None \<Rightarrow> Inr sharedElement)"

definition extractStringValue ::
  "tree_query \<Rightarrow> element \<Rightarrow> SchemaProperty \<Rightarrow> element option \<Rightarrow> string option
    \<Rightarrow> error + raw option" where
  "extractStringValue q contextNode property sharedElement propertyName =
     (case findElement q contextNode (selector property) sharedElement of
        Inl err \<Rightarrow> Inl err
      | Inr None \<Rightarrow>
          (if present (selector property) = None \<and> sharedElement = None then
             let attributeName = js_or (attribute property) (js_or propertyName TEXT);
                 v = extractValueFromElement q contextNode attributeName
             in Inr (or_null v)
           else Inr None)
      | Inr (Some element) \<Rightarrow>
          (let attributeName = js_or (attribute property) (js_or propertyName TEXT);
               v = extractValueFromElement q element attributeName
           in Inr (or_null v)))"

text \<open>The parts of a schema property are smaller than the property: the recursion of the
  engine ends.\<close>

lemma size_items: "items p = Some i \<Longrightarrow> size i < size p"
  by (cases p) auto

lemma size_properties:
  "properties p = Some es \<Longrightarrow> size_list (size_prod (\<lambda>_. 0) size) es < size p"
  by (cases p) auto

text \<open>
  The recursive engine. \<open>extractArrayItems\<close> is the \<^verbatim>\<open>elements.map(...)\<close> of
  \<^verbatim>\<open>extractArrayValue\<close> and \<open>extractObjectFields\<close> the \<^verbatim>\<open>for\<close> loop of
  \<^verbatim>\<open>extractObjectValue\<close> over the remaining entries, with the \<^verbatim>\<open>result\<close>
  object built so far; a throw of a recursive call ends either loop. The first test of
  \<^verbatim>\<open>extractSchemaValue\<close> is \<^verbatim>\<open>!property.type\<close> (the context node and the
  property are never \<^verbatim>\<open>null\<close> at a call of this file).
\<close>

function
  extractSchemaValue ::
    "tree_query \<Rightarrow> element \<Rightarrow> SchemaProperty \<Rightarrow> element option \<Rightarrow> string option
      \<Rightarrow> jvalue option io"
and extractArrayValue :: "tree_query \<Rightarrow> element \<Rightarrow> SchemaProperty \<Rightarrow> jvalue option io"
and extractArrayItems ::
    "tree_query \<Rightarrow> SchemaProperty \<Rightarrow> element list \<Rightarrow> jvalue option list io"
and extractObjectValue :: "tree_query \<Rightarrow> element \<Rightarrow> SchemaProperty \<Rightarrow> jvalue option io"
and extractObjectFields ::
    "tree_query \<Rightarrow> element \<Rightarrow> element option \<Rightarrow> (string \<times> SchemaProperty) list
      \<Rightarrow> (string \<times> jvalue) list \<Rightarrow> (string \<times> jvalue) list io"
where
  "extractSchemaValue q contextNode property sharedElement propertyName =
     (if ptype property = [] then ([], Inr None)
      else if ptype property = STRING then
        ([], map_sum id (map_option of_raw)
               (extractStringValue q contextNode property sharedElement propertyName))
      else if ptype property = ARRAY then extractArrayValue q contextNode property
      else if ptype property = OBJECT then extractObjectValue q contextNode property
      else ([Warn (''Unsupported schema type: '' @ ptype property) None], Inr None))"
| "extractArrayValue q contextNode property =
     (case (present (selector property), items property) of
        (Some sel, Some itemSchema) \<Rightarrow>
          (case selectAll q sel contextNode of
             Inl err \<Rightarrow> ([], Inl err)
           | Inr elements \<Rightarrow>
               (if length elements = 0 then ([], Inr None)
                else
                  (case extractArrayItems q itemSchema elements of
                     (l, Inl err) \<Rightarrow> (l, Inl err)
                   | (l, Inr mapped) \<Rightarrow>
                       (let results = [v. Some v \<leftarrow> filter Boolean mapped]
                        in (l, Inr (if length results > 0 then Some (JArray results) else None))))))
      | _ \<Rightarrow> ([], Inr None))"
| "extractArrayItems q itemSchema [] = ([], Inr [])"
| "extractArrayItems q itemSchema (element # rest) =
     (case extractSchemaValue q element itemSchema None None of
        (l, Inl err) \<Rightarrow> (l, Inl err)
      | (l, Inr result) \<Rightarrow>
          (case extractArrayItems q itemSchema rest of
             (l', Inl err) \<Rightarrow> (l @ l', Inl err)
           | (l', Inr results) \<Rightarrow> (l @ l', Inr (result # results))))"
| "extractObjectValue q contextNode property =
     (case properties property of
        None \<Rightarrow> ([], Inr None)
      | Some entries \<Rightarrow>
          (case (case present (selector property) of
                   Some objectSelector \<Rightarrow> select q objectSelector contextNode
                 | None \<Rightarrow> Inr None) of
             Inl err \<Rightarrow> ([], Inl err)
           | Inr sharedElement \<Rightarrow>
               (case extractObjectFields q contextNode sharedElement entries [] of
                  (l, Inl err) \<Rightarrow> (l, Inl err)
                | (l, Inr result) \<Rightarrow> (l, Inr (map_option JObject (nonempty_or_null result))))))"
| "extractObjectFields q contextNode sharedElement [] result = ([], Inr result)"
| "extractObjectFields q contextNode sharedElement ((propName, propSchema) # rest) result =
     (let extractionContext = (case sharedElement of Some e \<Rightarrow> e | None \<Rightarrow> contextNode)
      in case extractSchemaValue q extractionContext propSchema sharedElement (Some propName) of
           (l, Inl err) \<Rightarrow> (l, Inl err)
         | (l, Inr v) \<Rightarrow>
             (case extractObjectFields q contextNode sharedElement rest
                     (case v of None \<Rightarrow> result | Some x \<Rightarrow> assign propName x result) of
                (l', r) \<Rightarrow> (l @ l', r)))"
  by pat_completeness auto

termination
  by (relation "inv_image (less_than <*lex*> less_than)
     (\<lambda>x. case x of
         Inl (Inl (q, c, p, s, n)) \<Rightarrow> (size p, 1::nat)
       | Inl (Inr (q, c, p)) \<Rightarrow> (size p, 0)
       | Inr (Inl (q, i, els)) \<Rightarrow> (size i, 2 + length els)
       | Inr (Inr (Inl (q, c, p))) \<Rightarrow> (size p, 0)
       | Inr (Inr (Inr (q, c, s, es, r))) \<Rightarrow> (size_list (size_prod (\<lambda>_. 0) size) es, 0))")
    (auto simp: size_items size_properties)

subsection \<open>The block driver\<close>

text \<open>The \<^verbatim>\<open>for\<close> loop of \<^verbatim>\<open>extractBlockWithSchema\<close> over the remaining
  entries: each iteration runs in its own \<^verbatim>\<open>try\<close> and a caught error is logged.\<close>

fun extractBlockFields ::
  "tree_query \<Rightarrow> element \<Rightarrow> string \<Rightarrow> (string \<times> SchemaProperty) list
    \<Rightarrow> (string \<times> jvalue) list \<Rightarrow> log_entry list \<times> (string \<times> jvalue) list" where
  "extractBlockFields q blockNode blockName [] data = ([], data)"
| "extractBlockFields q blockNode blockName ((propertyName, propertySchema) # rest) data =
     (case extractSchemaValue q blockNode propertySchema None (Some propertyName) of
        (l, Inl err) \<Rightarrow>
          (case extractBlockFields q blockNode blockName rest data of
             (l', d) \<Rightarrow>
               (l @ [Warn (''Error extracting property '' @ propertyName @ '' for block ''
                            @ blockName @ '':'') (Some err)] @ l', d))
      | (l, Inr v) \<Rightarrow>
          (case extractBlockFields q blockNode blockName rest
                  (case v of None \<Rightarrow> data | Some x \<Rightarrow> assign propertyName x data) of
             (l', d) \<Rightarrow> (l @ l', d)))"

definition invalid_input :: "string \<Rightarrow> (string \<times> jvalue) list option io" where
  "invalid_input blockName =
     ([Warn (''Invalid input for extractBlockWithSchema: blockName='' @ blockName) None], Inr None)"

definition extractBlockWithSchema ::
  "tree_query \<Rightarrow> element option \<Rightarrow> BlockSchema option \<Rightarrow> string
    \<Rightarrow> (string \<times> jvalue) list option io" where
  "extractBlockWithSchema q blockNode schema blockName =
     (case (blockNode, schema) of
        (Some node, Some sch) \<Rightarrow>
          (case properties_bs sch of
             None \<Rightarrow> invalid_input blockName
           | Some entries \<Rightarrow>
               (case extractBlockFields q node blockName entries [] of
                  (l, data) \<Rightarrow> (l, Inr (nonempty_or_null data))))
      | _ \<Rightarrow> invalid_input blockName)"

subsection \<open>The schema loader\<close>

record Ctx =
  org :: "string option"
  site :: "string option"
  edsDomainUrl :: "string option"
  contentPath :: "string option"
  sourceUrl :: "string option"
  useSchema :: bool
  compact :: bool
  includeHead :: bool
  transformer :: "string option"

text \<open>
  The platform the loader runs on: the \<^verbatim>\<open>URL\<close> constructor (it throws on a string
  it cannot parse), and \<^verbatim>\<open>fetch\<close> with the three parts of a response the loader
  reads. A rejected promise under \<^verbatim>\<open>await\<close> is a throw at that point.
\<close>

record URL =
  protocol :: string
  hostname :: string

record Response =
  ok :: bool
  status :: nat
  json :: "error + BlockSchema"

record platform =
  newURL :: "string \<Rightarrow> error + URL"
  fetch :: "string \<Rightarrow> error + Response"

text \<open>A number in a template literal: its decimal digits.\<close>

definition digit_char :: "nat \<Rightarrow> char" where
  "digit_char d = ''0123456789'' ! d"

function string_of_nat :: "nat \<Rightarrow> string" where
  "string_of_nat n =
     (if n < 10 then [digit_char n] else string_of_nat (n div 10) @ [digit_char (n mod 10)])"
  by pat_completeness auto
termination
  by (relation "measure id") auto

declare string_of_nat.simps [simp del]

text \<open>The rest of the \<^verbatim>\<open>try\<close> block of \<^verbatim>\<open>fetchBlockSchema\<close> once
  \<^verbatim>\<open>baseDomain\<close> has its final value.\<close>

definition fetchFromDomain ::
  "platform \<Rightarrow> string \<Rightarrow> string option \<Rightarrow> BlockSchema option io" where
  "fetchFromDomain pf blockName baseDomain =
     (case present baseDomain of
        None \<Rightarrow>
          ([Warn (''No domain available for fetching schema for block '' @ blockName) None],
           Inr None)
      | Some base \<Rightarrow>
          (let schemaUrl = base @ ''/blocks/'' @ blockName @ ''/'' @ blockName @ ''.schema.json''
           in case fetch pf schemaUrl of
                Inl err \<Rightarrow> ([], Inl err)
              | Inr response \<Rightarrow>
                  (if ok response then
                     (case json response of
                        Inl err \<Rightarrow> ([], Inl err)
                      | Inr sch \<Rightarrow> ([], Inr (Some sch)))
                   else
                     ([Warn (''Schema not found for block '' @ blockName @ '' at '' @ schemaUrl
                              @ '' ('' @ string_of_nat (status response) @ '')'') None],
                      Inr None))))"

text \<open>The \<^verbatim>\<open>try\<close> block of \<^verbatim>\<open>fetchBlockSchema\<close>, and the function with its
  \<^verbatim>\<open>catch\<close>.\<close>

definition fetchBlockSchema_try :: "platform \<Rightarrow> string \<Rightarrow> Ctx \<Rightarrow> BlockSchema option io" where
  "fetchBlockSchema_try pf blockName ctx =
     (case (present (edsDomainUrl ctx), present (sourceUrl ctx)) of
        (None, Some src) \<Rightarrow>
          (case newURL pf src of
             Inl err \<Rightarrow>
               ([Warn (''Failed to extract domain from sourceUrl: '' @ src) (Some err)], Inr None)
           | Inr sourceUrlObj \<Rightarrow>
               fetchFromDomain pf blockName
                 (Some (protocol sourceUrlObj @ ''//'' @ hostname sourceUrlObj)))
      | _ \<Rightarrow> fetchFromDomain pf blockName (edsDomainUrl ctx))"

definition fetchBlockSchema :: "platform \<Rightarrow> string \<Rightarrow> Ctx \<Rightarrow> BlockSchema option io" where
  "fetchBlockSchema pf blockName ctx =
     (case fetchBlockSchema_try pf blockName ctx of
        (l, Inl err) \<Rightarrow>
          (l @ [Warn (''Failed to fetch schema for block '' @ blockName @ '':'') (Some err)],
           Inr None)
      | (l, Inr r) \<Rightarrow> (l, Inr r))"

text \<open>\<^verbatim>\<open>String.prototype.includes\<close>, and whether a warning shows a text: in its
  message or in the message of the error logged with it.\<close>

fun includes_str :: "string \<Rightarrow> string \<Rightarrow> bool" where
  "includes_str [] t = (t = [])"
| "includes_str (c # s) t = (prefix t (c # s) \<or> includes_str s t)"

fun warning_includes :: "log_entry \<Rightarrow> string \<Rightarrow> bool" where
  "warning_includes (Warn msg None) t = includes_str msg t"
| "warning_includes (Warn msg (Some (Error m))) t = (includes_str msg t \<or> includes_str m t)"

subsection \<open>Sample collaborators\<close>

text \<open>
  Modelled from the spec: \<^verbatim>\<open>getText\<close> is defined in \<^verbatim>\<open>./utils\<close>, which is
  not among the sources; the spec calls it the element's descendant text, concatenated
  in document order with no separator.
\<close>

text \<open>For the examples, whose texts are ASCII: \<^verbatim>\<open>String.prototype.trim\<close> on the ASCII
  white space characters (tab, line feed, vertical tab, form feed, carriage return,
  space), and the members every plain object inherits from \<^verbatim>\<open>Object.prototype\<close>,
  functions and objects, all truthy.\<close>

definition is_space :: "char \<Rightarrow> bool" where
  "is_space c = (c \<in> set [CHR 0x09, CHR 0x0A, CHR 0x0B, CHR 0x0C, CHR 0x0D, CHR 0x20])"

definition trim_ascii :: "string \<Rightarrow> string" where
  "trim_ascii s = rev (dropWhile is_space (rev (dropWhile is_space s)))"

definition object_prototype :: "string \<Rightarrow> raw option" where
  "object_prototype name =
     (if name \<in> set [''constructor'', ''__proto__'', ''hasOwnProperty'', ''isPrototypeOf'',
                      ''propertyIsEnumerable'', ''toLocaleString'', ''toString'', ''valueOf'',
                      ''__defineGetter__'', ''__defineSetter__'', ''__lookupGetter__'',
                      ''__lookupSetter__'']
      then Some (ROther (Truthy 0)) else None)"

fun getText_spec :: "element \<Rightarrow> string"
and getText_child :: "child \<Rightarrow> string" where
  "getText_spec (Element t ps cs) = concat (map getText_child cs)"
| "getText_child (ChildElement e) = getText_spec e"
| "getText_child (ChildText s) = s"

text \<open>A selector engine for the examples: a selector is a tag name and matches the
  descendants of the node with that tag, in document order.\<close>

fun descendants :: "element \<Rightarrow> element list"
and descendants_child :: "child \<Rightarrow> element list" where
  "descendants (Element t ps cs) = concat (map descendants_child cs)"
| "descendants_child (ChildElement e) = e # descendants e"
| "descendants_child (ChildText s) = []"

definition by_tag :: tree_query where
  "by_tag =
     \<lparr> select = (\<lambda>s e. Inr (case filter (\<lambda>d. tagName d = s) (descendants e) of
                                 [] \<Rightarrow> None | d # ds \<Rightarrow> Some d)),
       selectAll = (\<lambda>s e. Inr (filter (\<lambda>d. tagName d = s) (descendants e))),
       getText = getText_spec, trim = trim_ascii, inherited = object_prototype \<rparr>"

text \<open>The same engine, except that it throws on the selector \<^verbatim>\<open>!\<close>.\<close>

definition by_tag_strict :: tree_query where
  "by_tag_strict =
     \<lparr> select = (\<lambda>s e. if s = ''!'' then Inl (Error ''bad selector'') else select by_tag s e),
       selectAll = (\<lambda>s e. if s = ''!'' then Inl (Error ''bad selector'') else selectAll by_tag s e),
       getText = getText_spec, trim = trim_ascii, inherited = object_prototype \<rparr>"

subsection \<open>The String case in the words of the specification\<close>

text \<open>
  Step 1 of the String case: with a selector, the first match under the context element
  (a miss is omission); without one, the shared element when there is one, else the
  context element itself. Step 2: the attribute name is the property's explicit attribute
  setting, else the field's own name, else the text sentinel.
\<close>

definition searchElement_spec ::
  "tree_query \<Rightarrow> element \<Rightarrow> SchemaProperty \<Rightarrow> element option \<Rightarrow> error + element option" where
  "searchElement_spec q ctx p shared =
     (case present (selector p) of
        Some s \<Rightarrow> select q s ctx
      | None \<Rightarrow> Inr (Some (case shared of Some e \<Rightarrow> e | None \<Rightarrow> ctx)))"

definition attributeName_spec :: "SchemaProperty \<Rightarrow> string option \<Rightarrow> string" where
  "attributeName_spec p name =
     (case present (attribute p) of
        Some a \<Rightarrow> a
      | None \<Rightarrow> (case present name of Some n \<Rightarrow> n | None \<Rightarrow> TEXT))"

subsection \<open>Unsupported type tags\<close>

text \<open>A property whose type tag is none of \<^verbatim>\<open>string\<close>, \<^verbatim>\<open>array\<close>,
  \<^verbatim>\<open>object\<close>.\<close>

definition unsupported :: "SchemaProperty \<Rightarrow> bool" where
  "unsupported p = (ptype p \<noteq> STRING \<and> ptype p \<noteq> ARRAY \<and> ptype p \<noteq> OBJECT)"

subsection \<open>A sample block\<close>

text \<open>The block \<^verbatim>\<open><div><h2 id="t"> Hi </h2><ul><li>x</li><li> </li><li>y</li></ul></div>\<close>
  and schema parts for the examples.\<close>

definition hero :: element where
  "hero = Element ''div'' (Some [])
     [ChildElement (Element ''h2'' (Some [(''id'', RString ''t'')]) [ChildText '' Hi '']),
      ChildElement (Element ''ul'' (Some [])
        [ChildElement (Element ''li'' (Some []) [ChildText ''x'']),
         ChildElement (Element ''li'' (Some []) [ChildText '' '']),
         ChildElement (Element ''li'' (Some []) [ChildText ''y''])])]"

definition string_at :: "string \<Rightarrow> SchemaProperty" where
  "string_at sel = SchemaProperty ''string'' None (Some sel) None None None None None"

definition number_prop :: SchemaProperty where
  "number_prop = SchemaProperty ''number'' None None None None None None None"

definition block_schema :: "(string \<times> SchemaProperty) list \<Rightarrow> BlockSchema" where
  "block_schema entries =
     \<lparr>schema_uri = None, title = None, description_bs = None, type_bs = ''object'',
      properties_bs = Some entries, required_bs = None\<rparr>"

subsection \<open>A sample platform\<close>

text \<open>A context with an EDS domain, and platforms that answer every request the same way:
  the connection fails; the server answers 404; the server answers 200 with a body that
  is not JSON.\<close>

definition sample_ctx :: Ctx where
  "sample_ctx =
     \<lparr>org = None, site = None, edsDomainUrl = Some ''https://example.com'', contentPath = None,
      sourceUrl = None, useSchema = True, compact = False, includeHead = True,
      transformer = None\<rparr>"

definition offline :: platform where
  "offline = \<lparr>newURL = (\<lambda>u. Inl (Error ''Invalid URL'')),
              fetch = (\<lambda>u. Inl (Error ''Network connection lost''))\<rparr>"

definition not_found :: platform where
  "not_found = \<lparr>newURL = (\<lambda>u. Inl (Error ''Invalid URL'')),
                fetch = (\<lambda>u. Inr \<lparr>ok = False, status = 404,
                                     json = Inl (Error ''Unexpected token'')\<rparr>)\<rparr>"

definition bad_json :: platform where
  "bad_json = \<lparr>newURL = (\<lambda>u. Inl (Error ''Invalid URL'')),
               fetch = (\<lambda>u. Inr \<lparr>ok = True, status = 200,
                                    json = Inl (Error ''Unexpected token'')\<rparr>)\<rparr>"

subsection \<open>Outcomes of a field extraction\<close>

text \<open>What one extraction contributes to its parent: the value it returned, if it returned
  one and did not throw; and whether it threw.\<close>

definition returned :: "'a option io \<Rightarrow> 'a option" where
  "returned r = (case snd r of Inr (Some v) \<Rightarrow> Some v | _ \<Rightarrow> None)"

definition throws :: "'a io \<Rightarrow> bool" where
  "throws r = isl (snd r)"

text \<open>
  The block driver in the words of the specification: each root field is extracted from
  the block element with no shared element and under its own name; its warnings are its
  own, followed, if it threw, by one warning with the field name, the block name and the
  error; the fields that returned a value are kept, in the order of the schema.
\<close>

definition field_log :: "tree_query \<Rightarrow> element \<Rightarrow> string \<Rightarrow> string \<Rightarrow> SchemaProperty \<Rightarrow> log_entry list" where
  "field_log q blockNode blockName k ps =
     (case extractSchemaValue q blockNode ps None (Some k) of
        (l, Inl err) \<Rightarrow>
          l @ [Warn (''Error extracting property '' @ k @ '' for block '' @ blockName @ '':'')
                 (Some err)]
      | (l, Inr v) \<Rightarrow> l)"

definition block_spec ::
  "tree_query \<Rightarrow> element \<Rightarrow> string \<Rightarrow> (string \<times> SchemaProperty) list
    \<Rightarrow> (string \<times> jvalue) list option io" where
  "block_spec q blockNode blockName entries =
     (concat (map (\<lambda>(k, ps). field_log q blockNode blockName k ps) entries),
      Inr (case [(k, v). (k, ps) \<leftarrow> entries,
                         Some v \<leftarrow> [returned (extractSchemaValue q blockNode ps None (Some k))]] of
             [] \<Rightarrow> None
           | kv # kvs \<Rightarrow> Some (kv # kvs)))"

subsection \<open>The Array case in the words of the specification\<close>


subsection \<open>More sample schemas\<close>

definition string_here :: SchemaProperty where
  "string_here = SchemaProperty ''string'' None None None None None None None"

definition array_of :: "string \<Rightarrow> SchemaProperty option \<Rightarrow> SchemaProperty" where
  "array_of sel itemSchema = SchemaProperty ''array'' None (Some sel) None None None None itemSchema"

definition object_of :: "string option \<Rightarrow> (string \<times> SchemaProperty) list \<Rightarrow> SchemaProperty" where
  "object_of sel entries = SchemaProperty ''object'' None sel None None (Some entries) None None"

subsection \<open>The Object case in the words of the specification\<close>

text \<open>
  On the fields of the mapping, with the context and the shared element handed down to
  them: each child is extracted under its own name; the warnings are those of the
  children, in the order of the mapping; the children that returned a value are kept,
  keyed by field name, in that order; an empty mapping is omission.
\<close>

definition object_spec ::
  "tree_query \<Rightarrow> element \<Rightarrow> element option \<Rightarrow> (string \<times> SchemaProperty) list
    \<Rightarrow> jvalue option io" where
  "object_spec q extractionContext sharedElement entries =
     (concat (map (\<lambda>(k, ps). fst (extractSchemaValue q extractionContext ps sharedElement (Some k)))
                entries),
      Inr (case [(k, v). (k, ps) \<leftarrow> entries,
                         Some v \<leftarrow> [returned (extractSchemaValue q extractionContext ps
                                                 sharedElement (Some k))]] of
             [] \<Rightarrow> None
           | kv # kvs \<Rightarrow> Some (JObject (kv # kvs))))"

subsection \<open>Schemas up to their required lists\<close>

text \<open>A schema with every \<^verbatim>\<open>required\<close> list removed, at the root and in every nested
  property. Two schemas are identical except for their required lists when they are equal
  after this.\<close>

primrec erase_required :: "SchemaProperty \<Rightarrow> SchemaProperty" where
  "erase_required (SchemaProperty t d s a f ps r i) =
     SchemaProperty t d s a f (map_option (map (map_prod id erase_required)) ps) None
       (map_option erase_required i)"

definition erase_entries :: "(string \<times> SchemaProperty) list \<Rightarrow> (string \<times> SchemaProperty) list" where
  "erase_entries entries = map (map_prod id erase_required) entries"

definition erase_required_bs :: "BlockSchema \<Rightarrow> BlockSchema" where
  "erase_required_bs sch =
     sch\<lparr>properties_bs := map_option erase_entries (properties_bs sch), required_bs := None\<rparr>"

text \<open>Two schemas for the sample block that differ only in required lists: at the root
  and in the nested Object property.\<close>

definition strict_schema :: BlockSchema where
  "strict_schema =
     \<lparr>schema_uri = None, title = None, description_bs = None, type_bs = ''object'',
      properties_bs = Some
        [(''heading'', SchemaProperty ''object'' None (Some ''h2'') None None
            (Some [(''id'', string_here), (''text'', string_here)]) (Some [''id'', ''nope'']) None),
         (''tags'', array_of ''li'' (Some string_here))],
      required_bs = Some [''heading'', ''absent'']\<rparr>"

definition lax_schema :: BlockSchema where
  "lax_schema =
     \<lparr>schema_uri = None, title = None, description_bs = None, type_bs = ''object'',
      properties_bs = Some
        [(''heading'', SchemaProperty ''object'' None (Some ''h2'') None None
            (Some [(''id'', string_here), (''text'', string_here)]) None None),
         (''tags'', array_of ''li'' (Some string_here))],
      required_bs = None\<rparr>"

section \<open>Properties of the extractor\<close>

declare extractSchemaValue.simps [simp del] extractArrayValue.simps [simp del]
  extractObjectValue.simps [simp del]

lemma present_Some_iff: "present x = Some s \<longleftrightarrow> x = Some s \<and> s \<noteq> []"
  by (cases x) auto

lemma present_None_iff: "present x = None \<longleftrightarrow> x = None \<or> x = Some []"
  by (cases x) auto

text \<open>
  Throughout, an optional string of a schema (selector, attribute, field name) counts as
  declared when the source's own test lets it through: it is there and it is not the
  empty string (\<open>present x = Some s\<close>).
\<close>

subsection \<open>String properties\<close>

text \<open>What \<open>extractValueFromElement\<close> reads under a name other than the text sentinel: the
  value of the attribute when it is there and not empty; the trimmed text when the
  attribute is absent, and also when it is there with the empty value.\<close>

lemma extractValueFromElement_attribute:
  assumes "attributeName \<noteq> TEXT" and "read_property q element attributeName = Some v"
    and "truthy_raw v"
  shows "extractValueFromElement q element attributeName = v"
  using assms by (simp add: extractValueFromElement_def or_null_def)

lemma extractValueFromElement_absent:
  assumes "read_property q element attributeName = None"
  shows "extractValueFromElement q element attributeName = RString (trim q (getText q element))"
  using assms by (simp add: extractValueFromElement_def)

lemma extractValueFromElement_empty:
  assumes "read_property q element attributeName = Some (RString [])"
  shows "extractValueFromElement q element attributeName = RString (trim q (getText q element))"
  using assms by (simp add: extractValueFromElement_def or_null_def)

text \<open>
  C1. For a String property whose resolved attribute name is not the text sentinel, the
  trimmed-text fallback is to be taken only when the attribute is absent on the element,
  never when it is present with an empty value. The source tests the value of the
  attribute for truthiness instead: on \<^verbatim>\<open><a href="">Y</a>\<close> with the attribute name
  \<^verbatim>\<open>href\<close> it takes the fallback, and \<open>extractStringValue\<close> returns the text
  \<^verbatim>\<open>Y\<close>.
\<close>

theorem empty_attribute_reads_text:
  "extractStringValue by_tag (Element ''a'' (Some [(''href'', RString '''')]) [ChildText ''Y''])
     (SchemaProperty STRING None None (Some ''href'') None None None None) None (Some ''link'')
   = Inr (Some (RString ''Y''))"
  by (simp add: extractStringValue_def findElement_def extractValueFromElement_def by_tag_def
        js_or_def or_null_def TEXT_def trim_ascii_def is_space_def read_property_def object_prototype_def)

text \<open>
  C2. For a String property that declares a selector, a first-match query under the
  context element that finds nothing makes \<open>extractStringValue\<close> return omission, whatever
  the shared element is; and with a declared selector the shared element has no influence
  on the result at all, so it is consulted only when the selector is absent.
\<close>

theorem extractStringValue_selector_miss:
  assumes declared: "present (selector p) = Some s"
  shows "(select q s ctx = Inr None \<longrightarrow> extractStringValue q ctx p shared name = Inr None)
       \<and> extractStringValue q ctx p shared name = extractStringValue q ctx p None name"
proof (cases "select q s ctx")
  case (Inl err)
  with declared show ?thesis
    by (simp add: extractStringValue_def findElement_def)
next
  case (Inr found)
  with declared show ?thesis
    by (cases found) (simp_all add: extractStringValue_def findElement_def)
qed

text \<open>The selector \<^verbatim>\<open>h2\<close> misses under a \<^verbatim>\<open>div\<close> that holds only text: the
  result is omission although a shared element with text is at hand, and the same
  property without the selector reads that shared element.\<close>

theorem extractStringValue_selector_miss_witness:
  "extractStringValue by_tag (Element ''div'' (Some []) [ChildText ''Y''])
      (SchemaProperty STRING None (Some ''h2'') None None None None None)
      (Some (Element ''p'' (Some []) [ChildText ''shared''])) (Some ''title'') = Inr None
   \<and> extractStringValue by_tag (Element ''div'' (Some []) [ChildText ''Y''])
      (SchemaProperty STRING None None None None None None None)
      (Some (Element ''p'' (Some []) [ChildText ''shared''])) (Some ''title'') = Inr (Some (RString ''shared''))"
proof -
  have declared:
    "present (selector (SchemaProperty STRING None (Some ''h2'') None None None None None))
       = Some ''h2''"
    by simp
  have miss: "select by_tag ''h2'' (Element ''div'' (Some []) [ChildText ''Y'']) = Inr None"
    by (simp add: by_tag_def)
  have "extractStringValue by_tag (Element ''div'' (Some []) [ChildText ''Y''])
      (SchemaProperty STRING None (Some ''h2'') None None None None None)
      (Some (Element ''p'' (Some []) [ChildText ''shared''])) (Some ''title'') = Inr None"
    using extractStringValue_selector_miss
            [OF declared, of by_tag "Element ''div'' (Some []) [ChildText ''Y'']"] miss
    by blast
  moreover have "extractStringValue by_tag (Element ''div'' (Some []) [ChildText ''Y''])
      (SchemaProperty STRING None None None None None None None)
      (Some (Element ''p'' (Some []) [ChildText ''shared''])) (Some ''title'') = Inr (Some (RString ''shared''))"
    by (simp add: extractStringValue_def findElement_def extractValueFromElement_def by_tag_def
        js_or_def or_null_def TEXT_def trim_ascii_def is_space_def read_property_def object_prototype_def)
  ultimately show ?thesis by simp
qed

lemma js_or_chain: "js_or (attribute p) (js_or name TEXT) = attributeName_spec p name"
  by (simp add: js_or_def attributeName_spec_def split: option.splits)

text \<open>The source function against the two steps of the specification.\<close>

lemma extractStringValue_spec:
  "extractStringValue q ctx p shared name =
     (case searchElement_spec q ctx p shared of
        Inl err \<Rightarrow> Inl err
      | Inr None \<Rightarrow> Inr None
      | Inr (Some el) \<Rightarrow> Inr (or_null (extractValueFromElement q el (attributeName_spec p name))))"
  by (cases "present (selector p)"; cases shared)
     (simp_all add: extractStringValue_def findElement_def searchElement_spec_def js_or_chain
       split: sum.splits option.splits)

text \<open>
  C6. The attribute name a String property is extracted with follows the fixed priority
  of \<open>attributeName_spec\<close>: the explicit attribute setting, else the field's own name,
  else the text sentinel; \<open>extractStringValue\<close> is the read of that name on the search
  element. In particular the property \<^verbatim>\<open>{type: string, attribute: "href"}\<close> named
  \<^verbatim>\<open>link\<close>, on an element with \<^verbatim>\<open>href="X"\<close> and the text \<^verbatim>\<open>Y\<close>,
  yields \<^verbatim>\<open>X\<close>, for every query engine.
\<close>

theorem attribute_name_priority:
  "extractStringValue q ctx p shared name =
     (case searchElement_spec q ctx p shared of
        Inl err \<Rightarrow> Inl err
      | Inr None \<Rightarrow> Inr None
      | Inr (Some el) \<Rightarrow> Inr (or_null (extractValueFromElement q el (attributeName_spec p name))))
   \<and> attributeName_spec (SchemaProperty ''string'' None None (Some ''href'') None None None None)
        (Some ''link'') = ''href''
   \<and> extractSchemaValue q (Element ''a'' (Some [(''href'', RString ''X'')]) [ChildText ''Y''])
        (SchemaProperty ''string'' None None (Some ''href'') None None None None) None (Some ''link'')
      = ([], Inr (Some (JString ''X'')))"
proof -
  let ?p = "SchemaProperty ''string'' None None (Some ''href'') None None None None"
  let ?e = "Element ''a'' (Some [(''href'', RString ''X'')]) [ChildText ''Y'']"
  have name: "attributeName_spec ?p (Some ''link'') = ''href''"
    by (simp add: attributeName_spec_def)
  have "searchElement_spec q ?e ?p None = Inr (Some ?e)"
    by (simp add: searchElement_spec_def)
  moreover have "extractValueFromElement q ?e ''href'' = RString ''X''"
    by (simp add: extractValueFromElement_def read_property_def or_null_def TEXT_def)
  ultimately have "extractStringValue q ?e ?p None (Some ''link'') = Inr (Some (RString ''X''))"
    by (simp add: extractStringValue_spec name or_null_def)
  then have "extractSchemaValue q ?e ?p None (Some ''link'') = ([], Inr (Some (JString ''X'')))"
    by (simp add: extractSchemaValue.simps STRING_def)
  with name show ?thesis
    by (simp add: extractStringValue_spec)
qed

subsection \<open>The block driver\<close>

text \<open>
  C10. Called with a missing block element, a missing schema, or a schema without a root
  \<open>properties\<close> mapping, \<open>extractBlockWithSchema\<close> returns omission and its whole output of
  diagnostics is one warning that names the block; nothing of the tree, of the query
  engine or of the schema's fields enters the result.
\<close>

theorem extractBlockWithSchema_invalid_input:
  assumes "blockNode = None \<or> schema = None
             \<or> (\<exists>sch. schema = Some sch \<and> properties_bs sch = None)"
  shows "extractBlockWithSchema q blockNode schema blockName =
     ([Warn (''Invalid input for extractBlockWithSchema: blockName='' @ blockName) None],
      Inr None)"
  using assms
  by (auto simp: extractBlockWithSchema_def invalid_input_def split: option.splits)

theorem extractBlockWithSchema_invalid_input_witness:
  "extractBlockWithSchema by_tag_strict None
     (Some \<lparr>schema_uri = None, title = None, description_bs = None, type_bs = ''object'',
            properties_bs =
              Some [(''title'', SchemaProperty ''string'' None (Some ''!'') None None None None None)],
            required_bs = None\<rparr>) ''hero''
   = ([Warn ''Invalid input for extractBlockWithSchema: blockName=hero'' None], Inr None)
   \<and> extractBlockWithSchema by_tag_strict (Some (Element ''div'' (Some []) []))
     (Some \<lparr>schema_uri = None, title = None, description_bs = None, type_bs = ''object'',
            properties_bs = None, required_bs = None\<rparr>) ''hero''
   = ([Warn ''Invalid input for extractBlockWithSchema: blockName=hero'' None], Inr None)"
  using extractBlockWithSchema_invalid_input [of None _ by_tag_strict "''hero''"]
    extractBlockWithSchema_invalid_input [of "Some (Element ''div'' (Some []) [])"
      "Some \<lparr>schema_uri = None, title = None, description_bs = None, type_bs = ''object'',
            properties_bs = None, required_bs = None\<rparr>" by_tag_strict "''hero''"]
  by simp

subsection \<open>Unsupported type tags\<close>

lemmas eval_defs =
  extractBlockWithSchema_def extractSchemaValue.simps extractArrayValue.simps
  extractObjectValue.simps extractStringValue_def findElement_def extractValueFromElement_def
  js_or_def or_null_def nonempty_or_null_def invalid_input_def assign_def
  TEXT_def STRING_def ARRAY_def OBJECT_def trim_ascii_def is_space_def read_property_def object_prototype_def
  by_tag_def by_tag_strict_def hero_def string_at_def number_prop_def block_schema_def

lemma extractSchemaValue_unsupported:
  assumes "unsupported p"
  shows "extractSchemaValue q ctx p shared name =
     (if ptype p = [] then [] else [Warn (''Unsupported schema type: '' @ ptype p) None], Inr None)"
  using assms by (simp add: unsupported_def extractSchemaValue.simps)

lemma extractObjectFields_append:
  "extractObjectFields q ctx sh (pre @ post) result =
     (case extractObjectFields q ctx sh pre result of
        (l, Inl err) \<Rightarrow> (l, Inl err)
      | (l, Inr r) \<Rightarrow> (case extractObjectFields q ctx sh post r of (l', x) \<Rightarrow> (l @ l', x)))"
proof (induction pre arbitrary: result)
  case Nil
  show ?case by (simp split: prod.splits)
next
  case (Cons entry pre)
  obtain k ps where entry: "entry = (k, ps)" by (cases entry)
  show ?case
    by (simp add: entry Cons.IH Let_def split: prod.splits sum.splits)
qed

lemma extractBlockFields_append:
  "extractBlockFields q b n (pre @ post) data =
     (case extractBlockFields q b n pre data of
        (l, d) \<Rightarrow> (case extractBlockFields q b n post d of (l', d') \<Rightarrow> (l @ l', d')))"
proof (induction pre arbitrary: data)
  case Nil
  show ?case by (simp split: prod.splits)
next
  case (Cons entry pre)
  obtain k ps where entry: "entry = (k, ps)" by (cases entry)
  show ?case
    by (simp add: entry Cons.IH split: prod.splits sum.splits)
qed

lemma extractObjectFields_skip:
  assumes "unsupported p"
  shows "snd (extractObjectFields q ctx sh (pre @ (k, p) # post) result) =
         snd (extractObjectFields q ctx sh (pre @ post) result)"
  by (simp add: extractObjectFields_append extractSchemaValue_unsupported [OF assms]
        split: prod.splits sum.splits)

lemma extractBlockFields_skip:
  assumes "unsupported p"
  shows "snd (extractBlockFields q b n (pre @ (k, p) # post) data) =
         snd (extractBlockFields q b n (pre @ post) data)"
  by (simp add: extractBlockFields_append extractSchemaValue_unsupported [OF assms]
        split: prod.splits sum.splits)

lemma extractObjectValue_snd:
  "snd (extractObjectValue q ctx p) =
     (case properties p of
        None \<Rightarrow> Inr None
      | Some entries \<Rightarrow>
          (case (case present (selector p) of
                   Some objectSelector \<Rightarrow> select q objectSelector ctx
                 | None \<Rightarrow> Inr None) of
             Inl err \<Rightarrow> Inl err
           | Inr sh \<Rightarrow>
               map_sum id (\<lambda>r. map_option JObject (nonempty_or_null r))
                 (snd (extractObjectFields q ctx sh entries []))))"
  by (simp add: extractObjectValue.simps split: option.splits sum.splits prod.splits)

text \<open>
  C8 (amended). For every property whose type tag is none of string, array, object:
  \<open>extractSchemaValue\<close> returns omission and throws nothing; when the tag is not empty
  it emits the one diagnostic \<^verbatim>\<open>Unsupported schema type: <tag>\<close>, and when the tag is
  empty it emits none (the entry test \<^verbatim>\<open>!property.type\<close> returns first). Such a
  field never aborts its siblings: the value of an enclosing Object property and the value
  of the block driver are what they are without the field.
\<close>

theorem unsupported_type_omitted:
  assumes "unsupported p"
  shows "extractSchemaValue q ctx p shared name =
           (if ptype p = [] then [] else [Warn (''Unsupported schema type: '' @ ptype p) None],
            Inr None)
       \<and> snd (extractObjectValue q ctx (SchemaProperty t d s a f (Some (pre @ (k, p) # post)) r i))
         = snd (extractObjectValue q ctx (SchemaProperty t d s a f (Some (pre @ post)) r i))
       \<and> snd (extractBlockWithSchema q (Some b) (Some (sch\<lparr>properties_bs := Some (pre @ (k, p) # post)\<rparr>)) n)
         = snd (extractBlockWithSchema q (Some b) (Some (sch\<lparr>properties_bs := Some (pre @ post)\<rparr>)) n)"
proof (intro conjI)
  show "extractSchemaValue q ctx p shared name =
           (if ptype p = [] then [] else [Warn (''Unsupported schema type: '' @ ptype p) None],
            Inr None)"
    by (rule extractSchemaValue_unsupported [OF assms])
next
  show "snd (extractObjectValue q ctx (SchemaProperty t d s a f (Some (pre @ (k, p) # post)) r i))
         = snd (extractObjectValue q ctx (SchemaProperty t d s a f (Some (pre @ post)) r i))"
    by (simp add: extractObjectValue_snd extractObjectFields_skip [OF assms] cong: sum.case_cong)
next
  have "snd (extractBlockFields q b n (pre @ (k, p) # post) []) =
         snd (extractBlockFields q b n (pre @ post) [])"
    by (rule extractBlockFields_skip [OF assms])
  then show "snd (extractBlockWithSchema q (Some b) (Some (sch\<lparr>properties_bs := Some (pre @ (k, p) # post)\<rparr>)) n)
         = snd (extractBlockWithSchema q (Some b) (Some (sch\<lparr>properties_bs := Some (pre @ post)\<rparr>)) n)"
    by (auto simp: extractBlockWithSchema_def split: prod.splits)
qed

theorem unsupported_type_omitted_witness:
  "extractSchemaValue by_tag hero number_prop None (Some ''n'')
     = ([Warn ''Unsupported schema type: number'' None], Inr None)
   \<and> snd (extractBlockWithSchema by_tag (Some hero)
            (Some (block_schema [(''title'', string_at ''h2''), (''n'', number_prop), (''item'', string_at ''li'')])) ''hero'')
     = Inr (Some [(''title'', JString ''Hi''), (''item'', JString ''x'')])"
proof -
  have u: "unsupported number_prop"
    by (simp add: unsupported_def number_prop_def STRING_def ARRAY_def OBJECT_def)
  have fields: "block_schema [(''title'', string_at ''h2''), (''n'', number_prop), (''item'', string_at ''li'')]
     = (block_schema [])\<lparr>properties_bs := Some ([(''title'', string_at ''h2'')] @ (''n'', number_prop) # [(''item'', string_at ''li'')])\<rparr>"
    by (simp add: block_schema_def)
  have rest: "snd (extractBlockWithSchema by_tag (Some hero)
            (Some ((block_schema [])\<lparr>properties_bs := Some ([(''title'', string_at ''h2'')] @ [(''item'', string_at ''li'')])\<rparr>)) ''hero'')
     = Inr (Some [(''title'', JString ''Hi''), (''item'', JString ''x'')])"
    by (simp add: eval_defs)
  note inst = unsupported_type_omitted [OF u, where q = by_tag and ctx = hero and shared = None
      and name = "Some ''n''" and b = hero and sch = "block_schema []" and n = "''hero''"
      and pre = "[(''title'', string_at ''h2'')]" and k = "''n''"
      and post = "[(''item'', string_at ''li'')]"]
  have d: "extractSchemaValue by_tag hero number_prop None (Some ''n'')
     = ([Warn ''Unsupported schema type: number'' None], Inr None)"
    using inst by (simp add: number_prop_def)
  have step: "snd (extractBlockWithSchema by_tag (Some hero)
            (Some ((block_schema [])\<lparr>properties_bs := Some ([(''title'', string_at ''h2'')] @ (''n'', number_prop) # [(''item'', string_at ''li'')])\<rparr>)) ''hero'')
     = snd (extractBlockWithSchema by_tag (Some hero)
            (Some ((block_schema [])\<lparr>properties_bs := Some ([(''title'', string_at ''h2'')] @ [(''item'', string_at ''li'')])\<rparr>)) ''hero'')"
    using inst by blast
  show ?thesis
    unfolding fields step rest using d by simp
qed

text \<open>C8 as first stated fails at the empty type tag: the tag is none of the three, the
  result is omission, and no diagnostic is emitted.\<close>

theorem empty_type_is_silent:
  "ptype (SchemaProperty '''' None None None None None None None) \<noteq> STRING
   \<and> ptype (SchemaProperty '''' None None None None None None None) \<noteq> ARRAY
   \<and> ptype (SchemaProperty '''' None None None None None None None) \<noteq> OBJECT
   \<and> extractSchemaValue by_tag (Element ''div'' (Some []) [ChildText ''Y''])
        (SchemaProperty '''' None None None None None None None) None (Some ''title'')
      = ([], Inr None)"
  by (simp add: extractSchemaValue.simps STRING_def ARRAY_def OBJECT_def)

subsection \<open>The schema loader\<close>

lemma includes_str_prefix: "prefix t s \<Longrightarrow> includes_str s t"
  by (cases s) auto

lemma includes_str_append: "includes_str (a @ t @ c) t"
  by (induction a) (auto simp: includes_str_prefix)

lemma fetchBlockSchema_returns: "\<exists>l r. fetchBlockSchema pf blockName ctx = (l, Inr r)"
proof (cases "fetchBlockSchema_try pf blockName ctx")
  case (Pair l res)
  then show ?thesis
    by (cases res) (simp_all add: fetchBlockSchema_def)
qed

lemma fetchBlockSchema_try_domain:
  assumes "present (edsDomainUrl ctx) = Some base
           \<or> (present (edsDomainUrl ctx) = None \<and> present (sourceUrl ctx) = Some src
                \<and> newURL pf src = Inr u \<and> base = protocol u @ ''//'' @ hostname u)"
  shows "fetchBlockSchema_try pf blockName ctx = fetchFromDomain pf blockName (Some base)"
  using assms
  by (auto simp: fetchBlockSchema_try_def present_Some_iff fetchFromDomain_def
           split: option.splits)

text \<open>
  C7 (amended). \<open>fetchBlockSchema\<close> never raises: for every platform, block name and
  context it returns. Once a base domain is there (the EDS domain of the context, or the
  protocol and host of its source URL), a network failure, a non-success status and
  malformed JSON each make it return the not-available signal after exactly one warning.
  The warning for a non-success status shows the attempted address and the status; the
  warning for a network failure or for malformed JSON is the message
  \<^verbatim>\<open>Failed to fetch schema for block <name>:\<close> logged with the caught error.
\<close>

theorem fetchBlockSchema_degrades:
  "(\<exists>l r. fetchBlockSchema pf blockName ctx = (l, Inr r))
   \<and> ((present (edsDomainUrl ctx) = Some base
         \<or> (present (edsDomainUrl ctx) = None \<and> present (sourceUrl ctx) = Some src
              \<and> newURL pf src = Inr u \<and> base = protocol u @ ''//'' @ hostname u))
        \<and> schemaUrl = base @ ''/blocks/'' @ blockName @ ''/'' @ blockName @ ''.schema.json''
      \<longrightarrow>
        (fetch pf schemaUrl = Inl err \<longrightarrow>
           fetchBlockSchema pf blockName ctx =
             ([Warn (''Failed to fetch schema for block '' @ blockName @ '':'') (Some err)],
              Inr None))
      \<and> (fetch pf schemaUrl = Inr response \<and> \<not> ok response \<longrightarrow>
           (\<exists>w. fetchBlockSchema pf blockName ctx = ([w], Inr None)
                \<and> warning_includes w schemaUrl
                \<and> warning_includes w (string_of_nat (status response))))
      \<and> (fetch pf schemaUrl = Inr response \<and> ok response \<and> json response = Inl err \<longrightarrow>
           fetchBlockSchema pf blockName ctx =
             ([Warn (''Failed to fetch schema for block '' @ blockName @ '':'') (Some err)],
              Inr None)))"
proof (intro conjI impI)
  show "\<exists>l r. fetchBlockSchema pf blockName ctx = (l, Inr r)"
    by (rule fetchBlockSchema_returns)
next
  assume given: "(present (edsDomainUrl ctx) = Some base
         \<or> (present (edsDomainUrl ctx) = None \<and> present (sourceUrl ctx) = Some src
              \<and> newURL pf src = Inr u \<and> base = protocol u @ ''//'' @ hostname u))
        \<and> schemaUrl = base @ ''/blocks/'' @ blockName @ ''/'' @ blockName @ ''.schema.json''"
  then have body: "fetchBlockSchema_try pf blockName ctx = fetchFromDomain pf blockName (Some base)"
    using fetchBlockSchema_try_domain [of ctx base src pf u blockName] by blast
  from given have nonempty: "base \<noteq> []"
    by (auto simp: present_Some_iff)
  from given have url: "schemaUrl = base @ ''/blocks/'' @ blockName @ ''/'' @ blockName @ ''.schema.json''"
    by simp
  {
    assume "fetch pf schemaUrl = Inl err"
    then show "fetchBlockSchema pf blockName ctx =
             ([Warn (''Failed to fetch schema for block '' @ blockName @ '':'') (Some err)],
              Inr None)"
      using nonempty by (simp add: fetchBlockSchema_def body fetchFromDomain_def url)
  next
    assume "fetch pf schemaUrl = Inr response \<and> ok response \<and> json response = Inl err"
    then show "fetchBlockSchema pf blockName ctx =
             ([Warn (''Failed to fetch schema for block '' @ blockName @ '':'') (Some err)],
              Inr None)"
      using nonempty by (simp add: fetchBlockSchema_def body fetchFromDomain_def url)
  next
    assume resp: "fetch pf schemaUrl = Inr response \<and> \<not> ok response"
    let ?w = "Warn ((''Schema not found for block '' @ blockName @ '' at '') @ schemaUrl
                     @ ('' ('' @ string_of_nat (status response) @ '')'')) None"
    have "fetchBlockSchema pf blockName ctx = ([?w], Inr None)"
      using resp nonempty by (simp add: fetchBlockSchema_def body fetchFromDomain_def url)
    moreover have "warning_includes ?w schemaUrl"
      unfolding warning_includes.simps by (rule includes_str_append)
    moreover have "warning_includes ?w (string_of_nat (status response))"
      using includes_str_append
        [of "''Schema not found for block '' @ blockName @ '' at '' @ schemaUrl @ '' (''"
            "string_of_nat (status response)" "'')''"]
      by simp
    ultimately show "\<exists>w. fetchBlockSchema pf blockName ctx = ([w], Inr None)
                \<and> warning_includes w schemaUrl
                \<and> warning_includes w (string_of_nat (status response))"
      by blast
  }
qed

theorem fetchBlockSchema_degrades_witness:
  "(\<exists>w. fetchBlockSchema not_found ''hero'' sample_ctx = ([w], Inr None)
        \<and> warning_includes w ''https://example.com/blocks/hero/hero.schema.json''
        \<and> warning_includes w ''404'')
   \<and> fetchBlockSchema offline ''hero'' sample_ctx =
        ([Warn ''Failed to fetch schema for block hero:'' (Some (Error ''Network connection lost''))],
         Inr None)"
proof -
  let ?url = "''https://example.com/blocks/hero/hero.schema.json''"
  let ?resp = "\<lparr>ok = False, status = 404, json = Inl (Error ''Unexpected token'')\<rparr>"
  have given: "(present (edsDomainUrl sample_ctx) = Some ''https://example.com''
         \<or> (present (edsDomainUrl sample_ctx) = None \<and> present (sourceUrl sample_ctx) = Some []
              \<and> newURL pf [] = Inr u \<and> ''https://example.com'' = protocol u @ ''//'' @ hostname u))
        \<and> ?url = ''https://example.com'' @ ''/blocks/'' @ ''hero'' @ ''/'' @ ''hero'' @ ''.schema.json''"
    for pf :: platform and u
    by (simp add: sample_ctx_def)
  have resp: "fetch not_found ?url = Inr ?resp \<and> \<not> ok ?resp"
    by (simp add: not_found_def)
  have down: "fetch offline ?url = Inl (Error ''Network connection lost'')"
    by (simp add: offline_def)
  have s404: "string_of_nat (status ?resp) = ''404''"
    by (simp add: string_of_nat.simps digit_char_def)
  have "\<exists>w. fetchBlockSchema not_found ''hero'' sample_ctx = ([w], Inr None)
        \<and> warning_includes w ?url
        \<and> warning_includes w (string_of_nat (status ?resp))"
    using fetchBlockSchema_degrades [where pf = not_found and ctx = sample_ctx
        and blockName = "''hero''" and base = "''https://example.com''" and src = "[]"
        and schemaUrl = ?url and response = ?resp, THEN conjunct2, THEN mp, OF given,
        THEN conjunct2, THEN conjunct1, THEN mp, OF resp] .
  then have first: "\<exists>w. fetchBlockSchema not_found ''hero'' sample_ctx = ([w], Inr None)
        \<and> warning_includes w ?url \<and> warning_includes w ''404''"
    unfolding s404 .
  have second: "fetchBlockSchema offline ''hero'' sample_ctx =
        ([Warn (''Failed to fetch schema for block '' @ ''hero'' @ '':'')
            (Some (Error ''Network connection lost''))], Inr None)"
    using fetchBlockSchema_degrades [where pf = offline and ctx = sample_ctx
        and blockName = "''hero''" and base = "''https://example.com''" and src = "[]"
        and schemaUrl = ?url and err = "Error ''Network connection lost''",
        THEN conjunct2, THEN mp, OF given, THEN conjunct1, THEN mp, OF down] .
  from first second show ?thesis by simp
qed

text \<open>C7 as first stated asks for the attempted address or the status in every one of
  the three warnings. On a 200 response whose body is not JSON the one warning shows
  neither.\<close>

theorem malformed_json_warning_lacks_address:
  "fetch bad_json ''https://example.com/blocks/hero/hero.schema.json''
     = Inr \<lparr>ok = True, status = 200, json = Inl (Error ''Unexpected token'')\<rparr>
   \<and> fetchBlockSchema bad_json ''hero'' sample_ctx =
        ([Warn ''Failed to fetch schema for block hero:'' (Some (Error ''Unexpected token''))],
         Inr None)
   \<and> \<not> warning_includes
          (Warn ''Failed to fetch schema for block hero:'' (Some (Error ''Unexpected token'')))
          ''https://example.com/blocks/hero/hero.schema.json''
   \<and> \<not> warning_includes
          (Warn ''Failed to fetch schema for block hero:'' (Some (Error ''Unexpected token'')))
          (string_of_nat 200)"
proof -
  have s200: "string_of_nat 200 = ''200''"
    by (simp add: string_of_nat.simps digit_char_def)
  have "fetch bad_json ''https://example.com/blocks/hero/hero.schema.json''
     = Inr \<lparr>ok = True, status = 200, json = Inl (Error ''Unexpected token'')\<rparr>"
    by (simp add: bad_json_def)
  moreover have "fetchBlockSchema bad_json ''hero'' sample_ctx =
        ([Warn ''Failed to fetch schema for block hero:'' (Some (Error ''Unexpected token''))],
         Inr None)"
    by (simp add: fetchBlockSchema_def fetchBlockSchema_try_def fetchFromDomain_def
          sample_ctx_def bad_json_def)
  moreover have "\<not> warning_includes
          (Warn ''Failed to fetch schema for block hero:'' (Some (Error ''Unexpected token'')))
          ''https://example.com/blocks/hero/hero.schema.json''"
    by simp
  moreover have "\<not> warning_includes
          (Warn ''Failed to fetch schema for block hero:'' (Some (Error ''Unexpected token'')))
          ''200''"
    by simp
  ultimately show ?thesis
    unfolding s200 by blast
qed

subsection \<open>The block driver, field by field\<close>

lemma assign_fresh:
  "k \<noteq> ''__proto__'' \<Longrightarrow> k \<notin> fst ` set al \<Longrightarrow> assign k v al = al @ [(k, v)]"
  by (induction al) (auto simp: assign_def)

text \<open>The warnings of the driver are those of its fields, one field after the other, whatever
  the fields return or throw.\<close>

lemma extractBlockFields_log:
  "fst (extractBlockFields q b n entries data) =
     concat (map (\<lambda>(k, ps). field_log q b n k ps) entries)"
proof (induction entries arbitrary: data)
  case Nil
  show ?case by simp
next
  case (Cons entry entries)
  obtain k ps where entry: "entry = (k, ps)" by (cases entry)
  obtain l res where run: "extractSchemaValue q b ps None (Some k) = (l, res)"
    by (cases "extractSchemaValue q b ps None (Some k)")
  have log: "field_log q b n k ps =
      (case res of
         Inl err \<Rightarrow> l @ [Warn (''Error extracting property '' @ k @ '' for block '' @ n @ '':'')
                          (Some err)]
       | Inr v \<Rightarrow> l)"
    by (simp add: field_log_def run split: sum.splits)
  show ?case
  proof (cases res)
    case (Inl err)
    have "fst (extractBlockFields q b n (entry # entries) data) =
        l @ [Warn (''Error extracting property '' @ k @ '' for block '' @ n @ '':'') (Some err)]
          @ fst (extractBlockFields q b n entries data)"
      by (simp add: entry run Inl split: prod.splits)
    then show ?thesis
      by (simp add: entry log Inl Cons.IH)
  next
    case (Inr v)
    have "fst (extractBlockFields q b n (entry # entries) data) =
        l @ fst (extractBlockFields q b n entries
                   (case v of None \<Rightarrow> data | Some x \<Rightarrow> assign k x data))"
      by (simp add: entry run Inr split: prod.splits)
    then show ?thesis
      by (simp add: entry log Inr Cons.IH)
  qed
qed

text \<open>Fields that return no value leave the mapping as it is.\<close>

lemma extractBlockFields_none:
  assumes "\<forall>(k, ps)\<in>set entries. returned (extractSchemaValue q b ps None (Some k)) = None"
  shows "snd (extractBlockFields q b n entries data) = data"
  using assms
proof (induction entries arbitrary: data)
  case Nil
  show ?case by simp
next
  case (Cons entry entries)
  obtain k ps where entry: "entry = (k, ps)" by (cases entry)
  obtain l res where run: "extractSchemaValue q b ps None (Some k) = (l, res)"
    by (cases "extractSchemaValue q b ps None (Some k)")
  from Cons.prems entry run have none: "res = Inr None \<or> (\<exists>err. res = Inl err)"
    by (cases res) (auto simp: returned_def split: option.splits)
  from Cons.prems have rest: "snd (extractBlockFields q b n entries data) = data"
    by (intro Cons.IH) simp
  from none rest show ?case
    by (auto simp: entry run split: prod.splits)
qed

lemma extractBlockFields_spec:
  assumes "distinct (map fst entries)" and "''__proto__'' \<notin> fst ` set entries"
    and "fst ` set entries \<inter> fst ` set data = {}"
  shows "snd (extractBlockFields q b n entries data) =
      data @ [(k, v). (k, ps) \<leftarrow> entries,
                      Some v \<leftarrow> [returned (extractSchemaValue q b ps None (Some k))]]"
  using assms
proof (induction entries arbitrary: data)
  case Nil
  show ?case by simp
next
  case (Cons entry entries)
  obtain k ps where entry: "entry = (k, ps)" by (cases entry)
  obtain l res where run: "extractSchemaValue q b ps None (Some k) = (l, res)"
    by (cases "extractSchemaValue q b ps None (Some k)")
  from Cons.prems entry have fresh: "k \<notin> fst ` set data" and later: "k \<notin> fst ` set entries"
    and own: "k \<noteq> ''__proto__''" and owns: "''__proto__'' \<notin> fst ` set entries"
    and dist: "distinct (map fst entries)" and disj: "fst ` set entries \<inter> fst ` set data = {}"
    by auto
  show ?case
  proof (cases "returned (l, res)")
    case None
    then have "res = Inr None \<or> (\<exists>err. res = Inl err)"
      by (cases res) (auto simp: returned_def split: option.splits)
    then have "snd (extractBlockFields q b n (entry # entries) data) =
        snd (extractBlockFields q b n entries data)"
      by (auto simp: entry run split: prod.splits)
    with None show ?thesis
      by (simp add: entry run Cons.IH [OF dist owns disj])
  next
    case (Some x)
    then have res: "res = Inr (Some x)"
      by (cases res) (auto simp: returned_def split: option.splits)
    have disj': "fst ` set entries \<inter> fst ` set (data @ [(k, x)]) = {}"
      using disj later by auto
    have "snd (extractBlockFields q b n (entry # entries) data) =
        snd (extractBlockFields q b n entries (data @ [(k, x)]))"
      by (simp add: entry run res assign_fresh [OF own fresh] split: prod.splits)
    with Some show ?thesis
      by (simp add: entry run Cons.IH [OF dist owns disj'])
  qed
qed

text \<open>
  C5. On a block element and a schema with root fields, \<open>extractBlockWithSchema\<close> never
  throws, never returns the empty mapping, and returns omission when no field returns a
  value. For root fields not named \<^verbatim>\<open>__proto__\<close> it goes through the fields in the
  order of the schema, each extracted from the block element with no shared element: its
  warnings are those of the fields in that order, and a field that throws adds one warning
  with the field name and the block name after its own warnings, while every later field
  is still extracted. When the names are also distinct, as the keys of an object are, it
  is \<open>block_spec\<close>: the mapping of the fields that returned a value, in the order of the
  schema, or omission when there is none.
\<close>

theorem extractBlockWithSchema_spec:
  assumes "properties_bs sch = Some entries"
  shows "(\<exists>r. snd (extractBlockWithSchema q (Some b) (Some sch) n) = Inr r)
       \<and> snd (extractBlockWithSchema q (Some b) (Some sch) n) \<noteq> Inr (Some [])
       \<and> ((\<forall>(k, ps)\<in>set entries. returned (extractSchemaValue q b ps None (Some k)) = None)
            \<longrightarrow> snd (extractBlockWithSchema q (Some b) (Some sch) n) = Inr None)
       \<and> (''__proto__'' \<notin> fst ` set entries
            \<longrightarrow> fst (extractBlockWithSchema q (Some b) (Some sch) n) =
                  concat (map (\<lambda>(k, ps). field_log q b n k ps) entries)
                \<and> (distinct (map fst entries)
                     \<longrightarrow> extractBlockWithSchema q (Some b) (Some sch) n =
                           block_spec q b n entries))"
proof -
  obtain l data where run: "extractBlockFields q b n entries [] = (l, data)"
    by (cases "extractBlockFields q b n entries []")
  have whole: "extractBlockWithSchema q (Some b) (Some sch) n = (l, Inr (nonempty_or_null data))"
    by (simp add: extractBlockWithSchema_def assms run)
  have logs: "l = concat (map (\<lambda>(k, ps). field_log q b n k ps) entries)"
    using extractBlockFields_log [of q b n entries "[]"] by (simp add: run)
  have never: "nonempty_or_null data \<noteq> Some []"
    by (simp add: nonempty_or_null_def)
  have none: "nonempty_or_null data = None"
    if "\<forall>(k, ps)\<in>set entries. returned (extractSchemaValue q b ps None (Some k)) = None"
    using extractBlockFields_none [OF that, of n "[]"] by (simp add: run nonempty_or_null_def)
  have spec: "extractBlockWithSchema q (Some b) (Some sch) n = block_spec q b n entries"
    if "''__proto__'' \<notin> fst ` set entries" and "distinct (map fst entries)"
  proof -
    define kept where "kept = [(k, v). (k, ps) \<leftarrow> entries,
                      Some v \<leftarrow> [returned (extractSchemaValue q b ps None (Some k))]]"
    have "snd (extractBlockFields q b n entries []) = [] @ kept"
      unfolding kept_def by (rule extractBlockFields_spec) (use that in simp_all)
    then have "data = kept"
      by (simp add: run)
    moreover have "nonempty_or_null kept = (case kept of [] \<Rightarrow> None | kv # kvs \<Rightarrow> Some (kv # kvs))"
      by (cases kept) (simp_all add: nonempty_or_null_def)
    ultimately show ?thesis
      unfolding block_spec_def kept_def [symmetric] by (simp add: whole logs)
  qed
  from logs never none spec show ?thesis
    by (simp add: whole)
qed

text \<open>On the sample block: the first field throws (its selector cannot be parsed), the
  second yields the heading, the third has an unsupported type, the fourth finds nothing.\<close>

theorem extractBlockWithSchema_spec_witness:
  "extractBlockWithSchema by_tag_strict (Some hero)
     (Some (block_schema [(''worse'', string_at ''!''), (''title'', string_at ''h2''),
                          (''n'', number_prop), (''none'', string_at ''h3'')])) ''hero''
   = ([Warn ''Error extracting property worse for block hero:'' (Some (Error ''bad selector'')),
       Warn ''Unsupported schema type: number'' None],
      Inr (Some [(''title'', JString ''Hi'')]))
   \<and> extractBlockWithSchema by_tag_strict (Some hero)
     (Some (block_schema [(''worse'', string_at ''!''), (''none'', string_at ''h3'')])) ''hero''
   = ([Warn ''Error extracting property worse for block hero:'' (Some (Error ''bad selector''))],
      Inr None)"
proof -
  let ?four = "[(''worse'', string_at ''!''), (''title'', string_at ''h2''),
                (''n'', number_prop), (''none'', string_at ''h3'')]"
  let ?two = "[(''worse'', string_at ''!''), (''none'', string_at ''h3'')]"
  have one: "block_spec by_tag_strict hero ''hero'' ?four
     = ([Warn ''Error extracting property worse for block hero:'' (Some (Error ''bad selector'')),
         Warn ''Unsupported schema type: number'' None],
        Inr (Some [(''title'', JString ''Hi'')]))"
    by (simp add: block_spec_def field_log_def returned_def eval_defs)
  have two: "block_spec by_tag_strict hero ''hero'' ?two
     = ([Warn ''Error extracting property worse for block hero:'' (Some (Error ''bad selector''))],
        Inr None)"
    by (simp add: block_spec_def field_log_def returned_def eval_defs)
  have names4: "''__proto__'' \<notin> fst ` set ?four \<and> distinct (map fst ?four)"
    and names2: "''__proto__'' \<notin> fst ` set ?two \<and> distinct (map fst ?two)"
    by simp_all
  have "extractBlockWithSchema by_tag_strict (Some hero) (Some (block_schema ?four)) ''hero''
          = block_spec by_tag_strict hero ''hero'' ?four"
    using extractBlockWithSchema_spec [of "block_schema ?four" ?four by_tag_strict hero "''hero''"]
      names4
    by (simp add: block_schema_def)
  moreover have "extractBlockWithSchema by_tag_strict (Some hero) (Some (block_schema ?two)) ''hero''
          = block_spec by_tag_strict hero ''hero'' ?two"
    using extractBlockWithSchema_spec [of "block_schema ?two" ?two by_tag_strict hero "''hero''"]
      names2
    by (simp add: block_schema_def)
  ultimately show ?thesis
    by (simp only: one two)
qed

text \<open>A root field named \<^verbatim>\<open>__proto__\<close> is extracted like any other, and its value adds
  no key to the mapping: alone, it leaves the driver with omission.\<close>

lemma proto_field_adds_no_key:
  "extractSchemaValue by_tag hero
       (SchemaProperty ''string'' None (Some ''h2'') (Some ''text'') None None None None)
       None (Some ''__proto__'')
     = ([], Inr (Some (JString ''Hi'')))
   \<and> extractBlockWithSchema by_tag (Some hero)
       (Some (block_schema
          [(''__proto__'',
            SchemaProperty ''string'' None (Some ''h2'') (Some ''text'') None None None None)]))
       ''hero'' = ([], Inr None)"
  by (simp add: eval_defs)

subsection \<open>Array properties\<close>





lemma extractObjectValue_shape:
  "extractObjectValue q ctx p = (l, Inr (Some v)) \<Longrightarrow> \<exists>kv kvs. v = JObject (kv # kvs)"
  by (auto simp: extractObjectValue.simps nonempty_or_null_def gr0_conv_Suc length_Suc_conv
           split: option.splits sum.splits prod.splits if_splits)





lemmas sample_defs = string_here_def array_of_def object_of_def


subsection \<open>Object properties\<close>

lemma extractObjectFields_spec:
  assumes "distinct (map fst entries)" and "''__proto__'' \<notin> fst ` set entries"
    and "fst ` set entries \<inter> fst ` set result = {}"
    and "\<forall>(k, ps)\<in>set entries.
           \<not> throws (extractSchemaValue q (case sh of Some e \<Rightarrow> e | None \<Rightarrow> ctx) ps sh (Some k))"
  shows "extractObjectFields q ctx sh entries result =
     (concat (map (\<lambda>(k, ps). fst (extractSchemaValue q (case sh of Some e \<Rightarrow> e | None \<Rightarrow> ctx)
                                      ps sh (Some k))) entries),
      Inr (result @ [(k, v). (k, ps) \<leftarrow> entries,
                      Some v \<leftarrow> [returned (extractSchemaValue q
                         (case sh of Some e \<Rightarrow> e | None \<Rightarrow> ctx) ps sh (Some k))]]))"
  using assms
proof (induction entries arbitrary: result)
  case Nil
  show ?case by simp
next
  case (Cons entry entries)
  let ?c = "case sh of Some e \<Rightarrow> e | None \<Rightarrow> ctx"
  obtain k ps where entry: "entry = (k, ps)" by (cases entry)
  from Cons.prems(4) entry obtain l v where run: "extractSchemaValue q ?c ps sh (Some k) = (l, Inr v)"
    by (cases "extractSchemaValue q ?c ps sh (Some k)";
        cases "snd (extractSchemaValue q ?c ps sh (Some k))") (auto simp: throws_def)
  from Cons.prems entry have fresh: "k \<notin> fst ` set result" and later: "k \<notin> fst ` set entries"
    and own: "k \<noteq> ''__proto__''" and owns: "''__proto__'' \<notin> fst ` set entries"
    and dist: "distinct (map fst entries)" and disj: "fst ` set entries \<inter> fst ` set result = {}"
    and calm: "\<forall>(k, ps)\<in>set entries. \<not> throws (extractSchemaValue q ?c ps sh (Some k))"
    by auto
  show ?case
  proof (cases v)
    case None
    have val: "returned (extractSchemaValue q ?c ps sh (Some k)) = None"
      by (simp add: returned_def run None)
    show ?thesis
      by (simp add: entry run None Cons.IH [OF dist owns disj calm] val [unfolded run None])
  next
    case (Some x)
    have val: "returned (extractSchemaValue q ?c ps sh (Some k)) = Some x"
      by (simp add: returned_def run Some)
    have disj': "fst ` set entries \<inter> fst ` set (result @ [(k, x)]) = {}"
      using disj later by auto
    show ?thesis
      by (simp add: entry run Some assign_fresh [OF own fresh] Cons.IH [OF dist owns disj' calm]
            val [unfolded run Some])
  qed
qed

lemma extractObjectValue_never_empty:
  "snd (extractObjectValue q ctx p) \<noteq> Inr (Some (JObject []))"
proof
  assume "snd (extractObjectValue q ctx p) = Inr (Some (JObject []))"
  then obtain l where "extractObjectValue q ctx p = (l, Inr (Some (JObject [])))"
    by (cases "extractObjectValue q ctx p") auto
  then show False
    by (auto dest: extractObjectValue_shape)
qed

lemma string_child_reads_shared:
  assumes "ptype ps = STRING" and "present (selector ps) = None"
  shows "extractSchemaValue q E ps (Some E) (Some k) =
     ([], Inr (map_option of_raw
                 (or_null (extractValueFromElement q E (attributeName_spec ps (Some k))))))"
  using assms
  by (simp add: extractSchemaValue.simps STRING_def extractStringValue_spec searchElement_spec_def)

lemma extractObjectValue_selector_throws:
  assumes "properties p = Some entries" and "present (selector p) = Some s"
    and "select q s ctx = Inl err"
  shows "extractObjectValue q ctx p = ([], Inl err)"
  using assms by (simp add: extractObjectValue.simps)

text \<open>
  C3 (amended). For an Object property: a missing field mapping yields omission; an Object
  result is never the empty mapping. The selector, if declared, is resolved by one
  first-match query under the context element, before the mapping is looked at: when
  that query throws, \<open>extractObjectValue\<close> throws, also on an empty mapping. When it
  returns (\<open>sh\<close> is its result, no element when there is no selector or no match), an
  empty mapping yields omission, and when no child throws \<open>extractObjectValue\<close> is
  \<open>object_spec\<close> on that one resolved element: every child gets it both as its context and
  as its shared element (the original context when none was resolved), the children that
  returned a value are collected keyed by field name in the order of the mapping, and no
  returned value is omission. A child String field with no selector of its own, handed the
  resolved element \<open>E\<close>, reads the attribute or text of \<open>E\<close>. The fields have distinct
  names, as the keys of an object have, none of them \<^verbatim>\<open>__proto__\<close>.
\<close>

theorem extractObjectValue_spec:
  "(properties p = None \<longrightarrow> extractObjectValue q ctx p = ([], Inr None))
   \<and> snd (extractObjectValue q ctx p) \<noteq> Inr (Some (JObject []))
   \<and> (properties p = Some entries \<and> present (selector p) = Some s \<and> select q s ctx = Inl err
      \<longrightarrow> extractObjectValue q ctx p = ([], Inl err))
   \<and> (properties p = Some entries
        \<and> ((present (selector p) = None \<and> sh = None)
             \<or> (present (selector p) = Some s \<and> select q s ctx = Inr sh))
      \<longrightarrow> (entries = [] \<longrightarrow> extractObjectValue q ctx p = ([], Inr None))
          \<and> (distinct (map fst entries) \<and> ''__proto__'' \<notin> fst ` set entries
               \<and> (\<forall>(k, ps)\<in>set entries.
                     \<not> throws (extractSchemaValue q (case sh of Some E \<Rightarrow> E | None \<Rightarrow> ctx)
                                 ps sh (Some k)))
             \<longrightarrow> extractObjectValue q ctx p =
                   object_spec q (case sh of Some E \<Rightarrow> E | None \<Rightarrow> ctx) sh entries))
   \<and> (ptype ps = STRING \<and> present (selector ps) = None
      \<longrightarrow> extractSchemaValue q E ps (Some E) (Some k) =
            ([], Inr (map_option of_raw
                        (or_null (extractValueFromElement q E (attributeName_spec ps (Some k)))))))"
proof (intro conjI impI)
  assume "properties p = None"
  then show "extractObjectValue q ctx p = ([], Inr None)"
    by (simp add: extractObjectValue.simps)
next
  show "snd (extractObjectValue q ctx p) \<noteq> Inr (Some (JObject []))"
    by (rule extractObjectValue_never_empty)
next
  assume "properties p = Some entries \<and> present (selector p) = Some s \<and> select q s ctx = Inl err"
  then show "extractObjectValue q ctx p = ([], Inl err)"
    by (simp add: extractObjectValue_selector_throws)
next
  assume "ptype ps = STRING \<and> present (selector ps) = None"
  then show "extractSchemaValue q E ps (Some E) (Some k) =
            ([], Inr (map_option of_raw
                        (or_null (extractValueFromElement q E (attributeName_spec ps (Some k))))))"
    by (simp add: string_child_reads_shared)
next
  assume given: "properties p = Some entries
        \<and> ((present (selector p) = None \<and> sh = None)
             \<or> (present (selector p) = Some s \<and> select q s ctx = Inr sh))"
  then have resolved:
    "(case present (selector p) of Some objectSelector \<Rightarrow> select q objectSelector ctx
      | None \<Rightarrow> Inr None) = Inr sh"
    by auto
  assume "entries = []"
  with given resolved show "extractObjectValue q ctx p = ([], Inr None)"
    by (simp add: extractObjectValue.simps nonempty_or_null_def)
next
  assume given: "properties p = Some entries
        \<and> ((present (selector p) = None \<and> sh = None)
             \<or> (present (selector p) = Some s \<and> select q s ctx = Inr sh))"
  assume fields: "distinct (map fst entries) \<and> ''__proto__'' \<notin> fst ` set entries
               \<and> (\<forall>(k, ps)\<in>set entries.
                     \<not> throws (extractSchemaValue q (case sh of Some E \<Rightarrow> E | None \<Rightarrow> ctx)
                                 ps sh (Some k)))"
  let ?c = "case sh of Some E \<Rightarrow> E | None \<Rightarrow> ctx"
  define kept where "kept = [(k, v). (k, ps) \<leftarrow> entries,
                      Some v \<leftarrow> [returned (extractSchemaValue q ?c ps sh (Some k))]]"
  define logs where "logs = concat (map (\<lambda>(k, ps). fst (extractSchemaValue q ?c ps sh (Some k))) entries)"
  from given have resolved:
    "(case present (selector p) of Some objectSelector \<Rightarrow> select q objectSelector ctx
      | None \<Rightarrow> Inr None) = Inr sh"
    by auto
  have "extractObjectFields q ctx sh entries [] = (logs, Inr ([] @ kept))"
    unfolding kept_def logs_def
    by (rule extractObjectFields_spec) (use fields in simp_all)
  with given resolved have "extractObjectValue q ctx p =
      (logs, Inr (map_option JObject (nonempty_or_null kept)))"
    by (simp add: extractObjectValue.simps)
  moreover have "map_option JObject (nonempty_or_null kept)
      = (case kept of [] \<Rightarrow> None | kv # kvs \<Rightarrow> Some (JObject (kv # kvs)))"
    by (cases kept) (simp_all add: nonempty_or_null_def)
  ultimately show "extractObjectValue q ctx p = object_spec q ?c sh entries"
    unfolding object_spec_def kept_def [symmetric] logs_def [symmetric] by simp
qed

text \<open>On the sample block an Object property with the selector \<^verbatim>\<open>h2\<close>: the child
  \<^verbatim>\<open>id\<close> reads the attribute of the heading and the child \<^verbatim>\<open>text\<close> its text,
  where the block itself has no \<^verbatim>\<open>id\<close> and another text.\<close>

theorem extractObjectValue_spec_witness:
  "extractObjectValue by_tag hero
     (object_of (Some ''h2'')
        [(''id'', string_here), (''text'', string_here), (''missing'', string_at ''h3'')])
     = ([], Inr (Some (JObject [(''id'', JString ''t''), (''text'', JString ''Hi'')])))
   \<and> extractObjectValue by_tag hero (object_of (Some ''h2'') []) = ([], Inr None)
   \<and> extractSchemaValue by_tag hero string_here None (Some ''id'') = ([], Inr (Some (JString ''Hi x y'')))"
proof -
  let ?E = "Element ''h2'' (Some [(''id'', RString ''t'')]) [ChildText '' Hi '']"
  let ?entries = "[(''id'', string_here), (''text'', string_here), (''missing'', string_at ''h3'')]"
  let ?p = "object_of (Some ''h2'') ?entries"
  have fields: "properties ?p = Some ?entries"
    and names: "distinct (map fst ?entries) \<and> ''__proto__'' \<notin> fst ` set ?entries"
    by (simp_all add: object_of_def)
  have sel: "present (selector ?p) = Some ''h2'' \<and> select by_tag ''h2'' hero = Inr (Some ?E)"
    by (simp add: object_of_def by_tag_def hero_def)
  have calm: "\<forall>(k, ps)\<in>set ?entries.
      \<not> throws (extractSchemaValue by_tag (case Some ?E of Some E \<Rightarrow> E | None \<Rightarrow> hero) ps
                  (Some ?E) (Some k))"
    by (simp add: throws_def sample_defs eval_defs)
  have spec: "object_spec by_tag (case Some ?E of Some E \<Rightarrow> E | None \<Rightarrow> hero) (Some ?E) ?entries
     = ([], Inr (Some (JObject [(''id'', JString ''t''), (''text'', JString ''Hi'')])))"
    by (simp add: object_spec_def returned_def sample_defs eval_defs)
  have "extractObjectValue by_tag hero ?p =
      object_spec by_tag (case Some ?E of Some E \<Rightarrow> E | None \<Rightarrow> hero) (Some ?E) ?entries"
    using extractObjectValue_spec [where p = ?p and q = by_tag and ctx = hero
        and entries = ?entries and sh = "Some ?E" and s = "''h2''"] fields names sel calm
    by blast
  then have one: "extractObjectValue by_tag hero ?p =
      ([], Inr (Some (JObject [(''id'', JString ''t''), (''text'', JString ''Hi'')])))"
    by (simp only: spec)
  have two: "extractObjectValue by_tag hero (object_of (Some ''h2'') []) = ([], Inr None)"
    by (simp add: sample_defs eval_defs)
  have three: "extractSchemaValue by_tag hero string_here None (Some ''id'')
      = ([], Inr (Some (JString ''Hi x y'')))"
    by (simp add: sample_defs eval_defs)
  from one two three show ?thesis by blast
qed

text \<open>C3 as first stated has an empty field mapping yield omission. With a selector the
  query engine cannot parse, the query throws before the mapping is looked at.\<close>

theorem empty_mapping_bad_selector_throws:
  "properties (object_of (Some ''!'') []) = Some []
   \<and> extractObjectValue by_tag_strict hero (object_of (Some ''!'') [])
     = ([], Inl (Error ''bad selector''))"
  by (simp add: sample_defs eval_defs)

text \<open>A child named \<^verbatim>\<open>__proto__\<close> is extracted like any other, and its value adds no key
  to the mapping.\<close>

lemma proto_child_adds_no_key:
  "extractObjectValue by_tag hero
     (object_of None
        [(''__proto__'',
          SchemaProperty ''string'' None (Some ''h2'') (Some ''text'') None None None None)])
     = ([], Inr None)"
  by (simp add: sample_defs eval_defs)

subsection \<open>Required lists\<close>

lemma erase_required_fields [simp]:
  "ptype (erase_required p) = ptype p"
  "selector (erase_required p) = selector p"
  "attribute (erase_required p) = attribute p"
  "items (erase_required p) = map_option erase_required (items p)"
  "properties (erase_required p) = map_option erase_entries (properties p)"
  by (cases p; simp add: erase_entries_def cong: option.map_cong)+

lemma erase_entries_simps [simp]:
  "erase_entries [] = []"
  "erase_entries ((k, ps) # es) = (k, erase_required ps) # erase_entries es"
  by (simp_all add: erase_entries_def)

lemma attributeName_spec_erase:
  "attributeName_spec (erase_required p) n = attributeName_spec p n"
  by (simp add: attributeName_spec_def)

lemma searchElement_spec_erase:
  "searchElement_spec q c (erase_required p) sh = searchElement_spec q c p sh"
  by (simp add: searchElement_spec_def)

lemma extractStringValue_erase:
  "extractStringValue q c (erase_required p) sh n = extractStringValue q c p sh n"
  unfolding extractStringValue_spec attributeName_spec_erase searchElement_spec_erase
  by (rule refl)

text \<open>No function of the engine reads a \<^verbatim>\<open>required\<close> list: by induction along the
  recursion of the engine, each gives the same result on a property and on the property
  with its required lists removed.\<close>

lemma engine_erase:
  "extractSchemaValue q c p sh n = extractSchemaValue q c (erase_required p) sh n"
  "extractArrayValue q c p = extractArrayValue q c (erase_required p)"
  "extractArrayItems q it els = extractArrayItems q (erase_required it) els"
  "extractObjectValue q c p = extractObjectValue q c (erase_required p)"
  "extractObjectFields q c sh' es r =
     extractObjectFields q c sh' (erase_entries es) r"
proof (induction q c p sh n and q c p and q it els and q c p and q c sh' es r
       rule: extractSchemaValue_extractArrayValue_extractArrayItems_extractObjectValue_extractObjectFields.induct)
  case (1 q contextNode property sharedElement propertyName)
  then show ?case
    by (simp add: extractSchemaValue.simps [of _ _ property]
          extractSchemaValue.simps [of _ _ "erase_required property"] extractStringValue_erase)
next
  case (2 q contextNode property)
  then show ?case
    by (simp add: extractArrayValue.simps [of _ _ property]
          extractArrayValue.simps [of _ _ "erase_required property"]
          split: option.splits sum.splits)
next
  case (3 q itemSchema)
  show ?case by simp
next
  case (4 q itemSchema element rest)
  then show ?case
    by (simp split: prod.splits sum.splits)
next
  case (5 q contextNode property)
  then show ?case
    by (simp add: extractObjectValue.simps [of _ _ property]
          extractObjectValue.simps [of _ _ "erase_required property"]
          split: option.splits sum.splits)
next
  case (6 q contextNode sharedElement result)
  show ?case by simp
next
  case (7 q contextNode sharedElement propName propSchema rest result)
  then show ?case
    by (simp add: Let_def split: prod.splits sum.splits)
qed

lemma extractBlockFields_erase:
  "extractBlockFields q b n (erase_entries es) data = extractBlockFields q b n es data"
proof (induction es arbitrary: data)
  case Nil
  show ?case by simp
next
  case (Cons entry es)
  obtain k ps where entry: "entry = (k, ps)" by (cases entry)
  show ?case
    by (simp add: entry Cons.IH engine_erase(1) [of _ _ ps, symmetric])
qed

lemma extractBlockWithSchema_erase:
  "extractBlockWithSchema q blockNode (map_option erase_required_bs sch) n =
   extractBlockWithSchema q blockNode sch n"
proof (cases sch)
  case None
  then show ?thesis by simp
next
  case (Some s)
  show ?thesis
  proof (cases "properties_bs s")
    case None
    with Some show ?thesis
      by (simp add: extractBlockWithSchema_def erase_required_bs_def split: option.splits)
  next
    case (Some entries)
    with \<open>sch = Some s\<close> show ?thesis
      by (simp add: extractBlockWithSchema_def erase_required_bs_def extractBlockFields_erase
            split: option.splits)
  qed
qed

text \<open>
  C9. For every block element, block name and query engine, and every pair of schemas that
  are identical except for the \<^verbatim>\<open>required\<close> lists of the block schema or of any nested
  property, \<open>extractBlockWithSchema\<close> produces identical results, value and warnings: the
  required lists never influence extraction.
\<close>

theorem required_lists_are_inert:
  assumes "map_option erase_required_bs sch1 = map_option erase_required_bs sch2"
  shows "extractBlockWithSchema q blockNode sch1 n = extractBlockWithSchema q blockNode sch2 n"
proof -
  have "extractBlockWithSchema q blockNode sch1 n =
        extractBlockWithSchema q blockNode (map_option erase_required_bs sch1) n"
    by (simp add: extractBlockWithSchema_erase)
  also have "\<dots> = extractBlockWithSchema q blockNode (map_option erase_required_bs sch2) n"
    by (simp add: assms)
  also have "\<dots> = extractBlockWithSchema q blockNode sch2 n"
    by (simp add: extractBlockWithSchema_erase)
  finally show ?thesis .
qed

theorem required_lists_are_inert_witness:
  "strict_schema \<noteq> lax_schema
   \<and> extractBlockWithSchema by_tag (Some hero) (Some strict_schema) ''hero''
     = extractBlockWithSchema by_tag (Some hero) (Some lax_schema) ''hero''
   \<and> extractBlockWithSchema by_tag (Some hero) (Some lax_schema) ''hero''
     = ([], Inr (Some [(''heading'', JObject [(''id'', JString ''t''), (''text'', JString ''Hi'')]),
                       (''tags'', JArray [JString ''x'', JString ''y''])]))"
proof -
  have differ: "strict_schema \<noteq> lax_schema"
    by (simp add: strict_schema_def lax_schema_def)
  have same: "map_option erase_required_bs (Some strict_schema)
                = map_option erase_required_bs (Some lax_schema)"
    by (simp add: strict_schema_def lax_schema_def erase_required_bs_def sample_defs)
  have run: "extractBlockWithSchema by_tag (Some hero) (Some lax_schema) ''hero''
     = ([], Inr (Some [(''heading'', JObject [(''id'', JString ''t''), (''text'', JString ''Hi'')]),
                       (''tags'', JArray [JString ''x'', JString ''y''])]))"
    by (simp add: lax_schema_def sample_defs eval_defs
          del: length_greater_0_conv concat_eq_Nil_conv)
  from differ run required_lists_are_inert [OF same, of by_tag "Some hero" "''hero''"]
  show ?thesis by blast
qed

end
